theory Spec2Isabelle
  imports Main "HOL-Library.Word"
begin

section \<open>PrivOracle: the prediction ledger contract\<close>

text \<open>
  A shallow embedding of contract \<open>PrivOracle\<close>. Solidity's unsigned integers are machine
  words of their width, an \<open>address\<close> is a 160-bit word, and every \<open>mapping\<close> is a total
  function (an absent key reads as the zero value, as in the EVM's storage).
\<close>

type_synonym u8 = "8 word"
type_synonym u64 = "64 word"
type_synonym u128 = "128 word"
type_synonym u256 = "256 word"
type_synonym address = "160 word"

subsection \<open>The confidential engine, as a plaintext stand-in\<close>

text \<open>
  Modelled from the spec: the handle types of the confidential value engine (library \<open>FHE\<close>,
  which the contract imports and which is not among the sources). The stand-in implements
  the engine's interface over ordinary integers and booleans. An encrypted handle is its
  plaintext; \<open>None\<close> is the zero handle of a storage slot that was never written. An \<open>ebool\<close>
  only ever comes out of a comparison, so it is a \<open>bool\<close>.
\<close>

type_synonym euint8 = "u8 option"
type_synonym euint64 = "u64 option"
type_synonym euint128 = "u128 option"
type_synonym ebool = bool

text \<open>Modelled from the spec: the plaintext a handle stands for, as the off-core decryption
  gives it. The operations of the engine read the zero handle as an encrypted zero.\<close>

definition decrypt :: "'a::len word option \<Rightarrow> 'a word" where
  "decrypt h = (case h of None \<Rightarrow> 0 | Some v \<Rightarrow> v)"

text \<open>Modelled from the spec: \<open>lift(plaintext)\<close> into \<open>Enc8\<close>, the source's \<open>FHE.asEuint8\<close>.\<close>

definition FHE_asEuint8 :: "u8 \<Rightarrow> euint8" where
  "FHE_asEuint8 v = Some v"

text \<open>Modelled from the spec: \<open>lift(plaintext)\<close> into \<open>Enc64\<close>, the source's \<open>FHE.asEuint64\<close>.\<close>

definition FHE_asEuint64 :: "u64 \<Rightarrow> euint64" where
  "FHE_asEuint64 v = Some v"

text \<open>Modelled from the spec: \<open>lift(plaintext)\<close> into \<open>Enc128\<close>, the source's
  \<open>FHE.asEuint128\<close>.\<close>

definition FHE_asEuint128 :: "u128 \<Rightarrow> euint128" where
  "FHE_asEuint128 v = Some v"

text \<open>Modelled from the spec: \<open>gt(Enc, Enc) -> EncBool\<close>, the source's \<open>FHE.gt\<close>, an unsigned
  comparison of the plaintexts.\<close>

definition FHE_gt :: "euint64 \<Rightarrow> euint64 \<Rightarrow> ebool" where
  "FHE_gt a b = (decrypt a > decrypt b)"

text \<open>Modelled from the spec: \<open>lt(Enc, Enc) -> EncBool\<close>, the source's \<open>FHE.lt\<close>.\<close>

definition FHE_lt :: "euint64 \<Rightarrow> euint64 \<Rightarrow> ebool" where
  "FHE_lt a b = (decrypt a < decrypt b)"

text \<open>Modelled from the spec: \<open>eq(Enc, Enc) -> EncBool\<close>, the source's \<open>FHE.eq\<close>.\<close>

definition FHE_eq :: "euint8 \<Rightarrow> euint8 \<Rightarrow> ebool" where
  "FHE_eq a b = (decrypt a = decrypt b)"

text \<open>Modelled from the spec: \<open>and(EncBool, EncBool) -> EncBool\<close>, the source's \<open>FHE.and\<close>.\<close>

definition FHE_and :: "ebool \<Rightarrow> ebool \<Rightarrow> ebool" where
  "FHE_and a b = (a \<and> b)"

text \<open>Modelled from the spec: \<open>or(EncBool, EncBool) -> EncBool\<close>, the source's \<open>FHE.or\<close>.\<close>

definition FHE_or :: "ebool \<Rightarrow> ebool \<Rightarrow> ebool" where
  "FHE_or a b = (a \<or> b)"

text \<open>Modelled from the spec: \<open>select(EncBool, EncA, EncA) -> EncA\<close>, the source's
  \<open>FHE.select\<close>: the first value when the condition holds, the second otherwise.\<close>

definition FHE_select :: "ebool \<Rightarrow> euint128 \<Rightarrow> euint128 \<Rightarrow> euint128" where
  "FHE_select c a b = (if c then a else b)"

text \<open>Modelled from the spec: \<open>add(EncA, EncA) -> EncA\<close>, the source's \<open>FHE.add\<close> on 128-bit
  values. The sum wraps around at \<open>2 ^ 128\<close>.\<close>

definition FHE_add :: "euint128 \<Rightarrow> euint128 \<Rightarrow> euint128" where
  "FHE_add a b = Some (decrypt a + decrypt b)"

text \<open>
  Modelled from the spec: the inputs of \<open>from_external(external_handle, proof)\<close>. In the
  stand-in an external handle is the plaintext the user encrypted, and an input proof is
  the list of the inputs it attests.
\<close>

type_synonym externalEuint8 = u8
type_synonym externalEuint64 = u64

record inputProof =
  attested64 :: "u64 list"
  attested8 :: "u8 list"

text \<open>Modelled from the spec: \<open>from_external(external_handle, proof) -> Enc64\<close>, the source's
  \<open>FHE.fromExternal\<close>. It fails, which is \<open>None\<close> and the error \<open>InvalidProof\<close> of the call,
  unless the proof attests the external handle.\<close>

definition FHE_fromExternal64 :: "externalEuint64 \<Rightarrow> inputProof \<Rightarrow> euint64 option" where
  "FHE_fromExternal64 x pr = (if x \<in> set (attested64 pr) then Some (Some x) else None)"

text \<open>Modelled from the spec: \<open>from_external(external_handle, proof) -> Enc8\<close>.\<close>

definition FHE_fromExternal8 :: "externalEuint8 \<Rightarrow> inputProof \<Rightarrow> euint8 option" where
  "FHE_fromExternal8 x pr = (if x \<in> set (attested8 pr) then Some (Some x) else None)"

subsection \<open>Storage, environment, errors and effects\<close>

record Prediction =
  price :: euint64
  direction :: euint8
  stake :: u256
  confirmed :: bool
  exists :: bool

record state =
  owner :: address
  dailyPrice :: "u8 \<Rightarrow> u256 \<Rightarrow> u256"
  priceRecorded :: "u8 \<Rightarrow> u256 \<Rightarrow> bool"
  latestDay :: "u8 \<Rightarrow> u256"
  predictions :: "address \<Rightarrow> u8 \<Rightarrow> u256 \<Rightarrow> Prediction"
  points :: "address \<Rightarrow> euint128"
  pointsInitialized :: "address \<Rightarrow> bool"

text \<open>What a call reads of its transaction and block: \<open>msg.sender\<close> and \<open>block.timestamp\<close>.
  \<open>msg.value\<close> is an argument of the one payable function.\<close>

record env =
  msg_sender :: address
  block_timestamp :: u256

text \<open>The reverts of the contract, under the names of the spec's taxonomy: the \<open>require\<close>
  messages "Owner only", "Invalid asset", "Price too large", "Price already recorded",
  "Stake required", "Stake too large", "Prediction exists", "Too early",
  "Price not recorded", "Prediction missing" and "Already confirmed", in this order;
  the engine's rejection of an input proof; and the panic of checked arithmetic.\<close>

datatype error =
    Unauthorized
  | InvalidAsset
  | ValueOutOfRange
  | AlreadyRecorded
  | NoStake
  | StakeTooLarge
  | PredictionExists
  | TooEarly
  | PriceNotRecorded
  | PredictionMissing
  | AlreadyConfirmed
  | InvalidProof
  | ArithmeticPanic

text \<open>The effects of a call outside the contract's storage: the events it emits and the
  decryption capabilities it grants in the engine (\<open>FHE.allowThis\<close>, \<open>FHE.allow\<close>).\<close>

datatype principal = This | Account address

datatype effect =
    OwnerUpdated address address
  | PriceRecorded u8 u256 u256
  | PredictionPlaced address u8 u256 u256
  | PredictionConfirmed address u8 u256
  | Allow64 euint64 principal
  | Allow8 euint8 principal
  | Allow128 euint128 principal

type_synonym outcome = "(error + effect list) \<times> state"

subsection \<open>The contract\<close>

definition Asset_BTC :: u8 where
  "Asset_BTC = 1"

definition max_uint64 :: u256 where
  "max_uint64 = 2 ^ 64 - 1"

definition max_uint128 :: u256 where
  "max_uint128 = 2 ^ 128 - 1"

text \<open>The storage of a fresh contract is all zero; the constructor sets the owner.\<close>

definition zero_Prediction :: Prediction where
  "zero_Prediction =
     \<lparr>price = None, direction = None, stake = 0, confirmed = False, exists = False\<rparr>"

definition constructor :: "address \<Rightarrow> effect list \<times> state" where
  "constructor sender =
     ([OwnerUpdated 0 sender],
      \<lparr>owner = sender,
       dailyPrice = (\<lambda>a d. 0),
       priceRecorded = (\<lambda>a d. False),
       latestDay = (\<lambda>a. 0),
       predictions = (\<lambda>u a d. zero_Prediction),
       points = (\<lambda>u. None),
       pointsInitialized = (\<lambda>u. False)\<rparr>)"

definition currentDay :: "env \<Rightarrow> u256" where
  "currentDay e = block_timestamp e div 86400"

text \<open>
  The body of each external function returns its outcome together with the storage at the
  point where it stopped: a failed \<open>require\<close> is \<open>Inl\<close> of its error with the storage
  written so far. The rollback of a reverted call is \<open>transact\<close>, below.
\<close>

text \<open>Modifier \<open>onlyOwner\<close> runs before the body of \<open>recordDailyPrice\<close>. The day is
  the current day of the call, never an argument.\<close>

definition recordDailyPrice :: "env \<Rightarrow> u8 \<Rightarrow> u256 \<Rightarrow> state \<Rightarrow> outcome" where
  "recordDailyPrice e asset p s =
     (if msg_sender e \<noteq> owner s then (Inl Unauthorized, s)
      else if \<not> asset \<le> Asset_BTC then (Inl InvalidAsset, s)
      else if \<not> p \<le> max_uint64 then (Inl ValueOutOfRange, s)
      else
        let day = currentDay e in
        if priceRecorded s asset day then (Inl AlreadyRecorded, s)
        else
          let s1 = s\<lparr>dailyPrice := (dailyPrice s)(asset := (dailyPrice s asset)(day := p))\<rparr>;
              s2 = s1\<lparr>priceRecorded :=
                     (priceRecorded s1)(asset := (priceRecorded s1 asset)(day := True))\<rparr>;
              s3 = s2\<lparr>latestDay := (latestDay s2)(asset := day)\<rparr>
          in (Inr [PriceRecorded asset day p], s3))"

definition getPrice :: "state \<Rightarrow> u8 \<Rightarrow> u256 \<Rightarrow> u256 \<times> bool" where
  "getPrice s asset day = (dailyPrice s asset day, priceRecorded s asset day)"

definition getLatestDay :: "state \<Rightarrow> u8 \<Rightarrow> u256" where
  "getLatestDay s asset = latestDay s asset"

definition initPoints :: "address \<Rightarrow> state \<Rightarrow> effect list \<times> state" where
  "initPoints user s =
     (if pointsInitialized s user then ([], s)
      else
        let s1 = s\<lparr>points := (points s)(user := FHE_asEuint128 0)\<rparr>;
            s2 = s1\<lparr>pointsInitialized := (pointsInitialized s1)(user := True)\<rparr>
        in ([Allow128 (points s2 user) This, Allow128 (points s2 user) (Account user)], s2))"

text \<open>Writing one field of the prediction a storage reference points to.\<close>

definition set_prediction ::
  "address \<Rightarrow> u8 \<Rightarrow> u256 \<Rightarrow> (Prediction \<Rightarrow> Prediction) \<Rightarrow> state \<Rightarrow> state" where
  "set_prediction u asset day f s =
     s\<lparr>predictions :=
         (predictions s)(u := (predictions s u)(asset :=
            (predictions s u asset)(day := f (predictions s u asset day))))\<rparr>"

text \<open>The addition in \<open>currentDay() + 1\<close> is checked: at the largest day it would panic.
  The price handle is written before the direction handle is decoded, so the second
  decoding can fail after a write.\<close>

definition placePrediction ::
  "env \<Rightarrow> u256 \<Rightarrow> u8 \<Rightarrow> externalEuint64 \<Rightarrow> externalEuint8 \<Rightarrow> inputProof \<Rightarrow> state \<Rightarrow> outcome"
where
  "placePrediction e msg_value asset encryptedPrice encryptedDirection proof s =
     (if \<not> asset \<le> Asset_BTC then (Inl InvalidAsset, s)
      else if \<not> msg_value > 0 then (Inl NoStake, s)
      else if \<not> msg_value \<le> max_uint128 then (Inl StakeTooLarge, s)
      else if currentDay e = - 1 then (Inl ArithmeticPanic, s)
      else
        let day = currentDay e + 1;
            u = msg_sender e in
        if exists (predictions s u asset day) then (Inl PredictionExists, s)
        else
          case FHE_fromExternal64 encryptedPrice proof of
            None \<Rightarrow> (Inl InvalidProof, s)
          | Some hPrice \<Rightarrow>
              let s1 = set_prediction u asset day (\<lambda>p. p\<lparr>price := hPrice\<rparr>) s in
              (case FHE_fromExternal8 encryptedDirection proof of
                 None \<Rightarrow> (Inl InvalidProof, s1)
               | Some hDirection \<Rightarrow>
                   let s2 = set_prediction u asset day (\<lambda>p. p\<lparr>direction := hDirection\<rparr>) s1;
                       s3 = set_prediction u asset day (\<lambda>p. p\<lparr>stake := msg_value\<rparr>) s2;
                       s4 = set_prediction u asset day (\<lambda>p. p\<lparr>confirmed := False\<rparr>) s3;
                       s5 = set_prediction u asset day (\<lambda>p. p\<lparr>exists := True\<rparr>) s4;
                       pr = predictions s5 u asset day;
                       grants = [Allow64 (price pr) This, Allow8 (direction pr) This,
                                 Allow64 (price pr) (Account u),
                                 Allow8 (direction pr) (Account u)];
                       (grants', s6) = initPoints u s5
                   in (Inr (grants @ grants' @ [PredictionPlaced u asset day msg_value]), s6)))"

text \<open>The settlement computation that \<open>confirmPrediction\<close> has inline, from the read of the
  recorded price to the selected reward. \<open>uint64(price)\<close> and \<open>uint128(prediction.stake)\<close>
  are explicit conversions, which keep the low bits.\<close>

definition settlement :: "u256 \<Rightarrow> Prediction \<Rightarrow> euint128" where
  "settlement p prediction =
     (let actual = FHE_asEuint64 (ucast p);
          isGreater = FHE_gt actual (price prediction);
          isLess = FHE_lt actual (price prediction);
          dirGreater = FHE_eq (direction prediction) (FHE_asEuint8 1);
          dirLess = FHE_eq (direction prediction) (FHE_asEuint8 2);
          isCorrect = FHE_or (FHE_and dirGreater isGreater) (FHE_and dirLess isLess)
      in FHE_select isCorrect (FHE_asEuint128 (ucast (stake prediction))) (FHE_asEuint128 0))"

definition confirmPrediction :: "env \<Rightarrow> u8 \<Rightarrow> u256 \<Rightarrow> state \<Rightarrow> outcome" where
  "confirmPrediction e asset day s =
     (if \<not> asset \<le> Asset_BTC then (Inl InvalidAsset, s)
      else if \<not> currentDay e \<ge> day then (Inl TooEarly, s)
      else if \<not> priceRecorded s asset day then (Inl PriceNotRecorded, s)
      else
        let u = msg_sender e;
            prediction = predictions s u asset day in
        if \<not> exists prediction then (Inl PredictionMissing, s)
        else if confirmed prediction then (Inl AlreadyConfirmed, s)
        else
          let p = dailyPrice s asset day;
              reward = settlement p prediction;
              s1 = s\<lparr>points := (points s)(u := FHE_add (points s u) reward)\<rparr>;
              grants = [Allow128 (points s1 u) This, Allow128 (points s1 u) (Account u)];
              s2 = set_prediction u asset day (\<lambda>p. p\<lparr>confirmed := True\<rparr>) s1
          in (Inr (grants @ [PredictionConfirmed u asset day]), s2))"

definition getPrediction ::
  "state \<Rightarrow> address \<Rightarrow> u8 \<Rightarrow> u256 \<Rightarrow> euint64 \<times> euint8 \<times> u256 \<times> bool \<times> bool" where
  "getPrediction s user asset day =
     (let prediction = predictions s user asset day
      in (price prediction, direction prediction, stake prediction,
          confirmed prediction, exists prediction))"

definition getPoints :: "state \<Rightarrow> address \<Rightarrow> euint128" where
  "getPoints s user = points s user"

subsection \<open>Transactions\<close>

text \<open>A call to the contract is one transaction. A transaction that reverts leaves the
  storage of the contract as it was before the call.\<close>

datatype call =
    RecordDailyPrice u8 u256
  | PlacePrediction u256 u8 externalEuint64 externalEuint8 inputProof
  | ConfirmPrediction u8 u256

fun body :: "env \<Rightarrow> call \<Rightarrow> state \<Rightarrow> outcome" where
  "body e (RecordDailyPrice asset p) s = recordDailyPrice e asset p s"
| "body e (PlacePrediction v asset ep ed proof) s = placePrediction e v asset ep ed proof s"
| "body e (ConfirmPrediction asset day) s = confirmPrediction e asset day s"

definition transact :: "env \<Rightarrow> call \<Rightarrow> state \<Rightarrow> outcome" where
  "transact e c s =
     (case body e c s of
        (Inl err, s') \<Rightarrow> (Inl err, s)
      | (Inr effects, s') \<Rightarrow> (Inr effects, s'))"

fun run :: "state \<Rightarrow> (env \<times> call) list \<Rightarrow> state" where
  "run s [] = s"
| "run s ((e, c) # cs) = run (snd (transact e c s)) cs"

text \<open>The states of a deployed contract: the constructor's, and those any transaction
  leaves behind.\<close>

inductive reachable :: "state \<Rightarrow> bool" where
  deployed: "reachable (snd (constructor sender))"
| called: "reachable s \<Longrightarrow> reachable (snd (transact e c s))"

text \<open>Whether a transaction succeeds, and the storage it leaves.\<close>

definition succeeds :: "env \<Rightarrow> call \<Rightarrow> state \<Rightarrow> bool" where
  "succeeds e c s = (\<not> isl (fst (transact e c s)))"

definition after :: "env \<Rightarrow> call \<Rightarrow> state \<Rightarrow> state" where
  "after e c s = snd (transact e c s)"

subsection \<open>Auxiliary notions of the specification\<close>

text \<open>The storage and the effects of a successful \<open>placePrediction\<close>, written out.\<close>

definition placed :: "env \<Rightarrow> u256 \<Rightarrow> u8 \<Rightarrow> euint64 \<Rightarrow> euint8 \<Rightarrow> state \<Rightarrow> state" where
  "placed e v asset hPrice hDirection s =
     s\<lparr>predictions := (predictions s)(msg_sender e :=
          (predictions s (msg_sender e))(asset :=
            (predictions s (msg_sender e) asset)(currentDay e + 1 :=
               (predictions s (msg_sender e) asset (currentDay e + 1))
                 \<lparr>price := hPrice, direction := hDirection, stake := v,
                  confirmed := False, exists := True\<rparr>))),
       points := (if pointsInitialized s (msg_sender e) then points s
                  else (points s)(msg_sender e := Some 0)),
       pointsInitialized := (pointsInitialized s)(msg_sender e := True)\<rparr>"

definition placed_effects ::
  "env \<Rightarrow> u256 \<Rightarrow> u8 \<Rightarrow> euint64 \<Rightarrow> euint8 \<Rightarrow> state \<Rightarrow> effect list" where
  "placed_effects e v asset hPrice hDirection s =
     [Allow64 hPrice This, Allow8 hDirection This,
      Allow64 hPrice (Account (msg_sender e)), Allow8 hDirection (Account (msg_sender e))] @
     (if pointsInitialized s (msg_sender e) then []
      else [Allow128 (Some 0) This, Allow128 (Some 0) (Account (msg_sender e))]) @
     [PredictionPlaced (msg_sender e) asset (currentDay e + 1) v]"

text \<open>The reward the spec expects of a settlement, on plaintexts: the stake when the
  direction is 1 and the recorded price is greater than the predicted one, or the direction
  is 2 and it is less; 0 in every other case.\<close>

definition expected_reward :: "nat \<Rightarrow> nat \<Rightarrow> nat \<Rightarrow> nat \<Rightarrow> nat" where
  "expected_reward dir predicted actual st =
     (if (dir = 1 \<and> actual > predicted) \<or> (dir = 2 \<and> actual < predicted) then st else 0)"

text \<open>The calls of a sequence that succeed, and the days of the \<open>recordDailyPrice\<close> calls
  for an asset among some calls, in the order of the calls.\<close>

fun successes :: "state \<Rightarrow> (env \<times> call) list \<Rightarrow> (env \<times> call) list" where
  "successes s [] = []"
| "successes s ((e, c) # cs) =
     (if succeeds e c s then [(e, c)] else []) @ successes (after e c s) cs"

fun recorded_days :: "u8 \<Rightarrow> (env \<times> call) list \<Rightarrow> u256 list" where
  "recorded_days a [] = []"
| "recorded_days a ((e, RecordDailyPrice asset p) # cs) =
     (if asset = a then [currentDay e] else []) @ recorded_days a cs"
| "recorded_days a ((e, c) # cs) = recorded_days a cs"

subsection \<open>A scenario\<close>

text \<open>The scenario of the repository's test "rewards a correct prediction": a user stakes
  0.1 ether on asset 0 with the prediction "greater than 1900"; the next day the operator
  records the price 2000.\<close>

definition operator :: address where
  "operator = 1"

definition alice :: address where
  "alice = 2"

definition bob :: address where
  "bob = 3"

definition at :: "address \<Rightarrow> u256 \<Rightarrow> env" where
  "at who t = \<lparr>msg_sender = who, block_timestamp = t\<rparr>"

definition demo_deployed :: state where
  "demo_deployed = snd (constructor operator)"

definition demo_place :: call where
  "demo_place =
     PlacePrediction 100000000000000000 0 1900 1 \<lparr>attested64 = [1900], attested8 = [1]\<rparr>"

definition demo_open :: state where
  "demo_open =
     run demo_deployed [(at alice 5, demo_place), (at operator 86405, RecordDailyPrice 0 2000)]"

text \<open>A sequence of price records over four days: the third call repeats a day and the
  fourth is not the operator's.\<close>

definition demo_records :: "(env \<times> call) list" where
  "demo_records =
     [(at operator 5, RecordDailyPrice 0 2000),
      (at operator 86405, RecordDailyPrice 0 2100),
      (at operator 90000, RecordDailyPrice 0 2200),
      (at alice 172805, RecordDailyPrice 0 2300),
      (at operator 259300, RecordDailyPrice 0 1950)]"

section \<open>Properties\<close>

lemmas engine_defs =
  decrypt_def FHE_asEuint8_def FHE_asEuint64_def FHE_asEuint128_def FHE_gt_def FHE_lt_def
  FHE_eq_def FHE_and_def FHE_or_def FHE_select_def FHE_add_def FHE_fromExternal64_def
  FHE_fromExternal8_def

lemmas contract_defs =
  Asset_BTC_def max_uint64_def max_uint128_def zero_Prediction_def constructor_def
  currentDay_def recordDailyPrice_def initPoints_def set_prediction_def placePrediction_def
  settlement_def confirmPrediction_def transact_def succeeds_def after_def Let_def

lemmas demo_defs =
  operator_def alice_def bob_def at_def demo_deployed_def demo_place_def demo_open_def
  demo_records_def

subsection \<open>The day index\<close>

lemma currentDay_bound: "unat (currentDay e) \<le> (2 ^ 256 - 1) div 86400"
proof -
  have "unat (block_timestamp e) \<le> 2 ^ 256 - 1"
    using unsigned_less [of "block_timestamp e", where ?'a = nat] by simp
  then have "unat (block_timestamp e) div 86400 \<le> (2 ^ 256 - 1) div 86400"
    by (rule div_le_mono)
  then show ?thesis
    by (simp add: currentDay_def unat_div)
qed

lemma currentDay_no_overflow: "currentDay e \<noteq> - 1"
proof
  assume "currentDay e = - 1"
  then have "unat (currentDay e) = 2 ^ 256 - 1"
    by (simp add: unsigned_minus_1_eq_mask mask_eq_exp_minus_1)
  with currentDay_bound [of e] show False by simp
qed

lemma currentDay_less_tomorrow: "currentDay e < currentDay e + 1"
proof -
  have "unat (currentDay e) + 1 < 2 ^ 256"
    using currentDay_bound [of e] by simp
  then show ?thesis
    by (simp add: word_less_nat_alt unat_word_ariths)
qed

text \<open>A clock that never goes back gives days that never go back.\<close>

lemma currentDay_mono:
  "block_timestamp e1 \<le> block_timestamp e2 \<Longrightarrow> currentDay e1 \<le> currentDay e2"
  by (simp add: currentDay_def word_le_nat_alt unat_div div_le_mono)

subsection \<open>Each transaction, unfolded\<close>

lemma transact_recordDailyPrice:
  "transact e (RecordDailyPrice asset p) s =
     (if msg_sender e \<noteq> owner s then (Inl Unauthorized, s)
      else if \<not> asset \<le> 1 then (Inl InvalidAsset, s)
      else if \<not> p \<le> max_uint64 then (Inl ValueOutOfRange, s)
      else if priceRecorded s asset (currentDay e) then (Inl AlreadyRecorded, s)
      else (Inr [PriceRecorded asset (currentDay e) p],
            s\<lparr>dailyPrice := (dailyPrice s)(asset := (dailyPrice s asset)(currentDay e := p)),
              priceRecorded :=
                (priceRecorded s)(asset := (priceRecorded s asset)(currentDay e := True)),
              latestDay := (latestDay s)(asset := currentDay e)\<rparr>))"
  by (simp add: transact_def recordDailyPrice_def Asset_BTC_def Let_def)

lemma transact_confirmPrediction:
  "transact e (ConfirmPrediction asset day) s =
     (if \<not> asset \<le> 1 then (Inl InvalidAsset, s)
      else if \<not> day \<le> currentDay e then (Inl TooEarly, s)
      else if \<not> priceRecorded s asset day then (Inl PriceNotRecorded, s)
      else if \<not> exists (predictions s (msg_sender e) asset day)
        then (Inl PredictionMissing, s)
      else if confirmed (predictions s (msg_sender e) asset day)
        then (Inl AlreadyConfirmed, s)
      else
        (Inr [Allow128 (FHE_add (points s (msg_sender e))
                 (settlement (dailyPrice s asset day)
                    (predictions s (msg_sender e) asset day))) This,
              Allow128 (FHE_add (points s (msg_sender e))
                 (settlement (dailyPrice s asset day)
                    (predictions s (msg_sender e) asset day))) (Account (msg_sender e)),
              PredictionConfirmed (msg_sender e) asset day],
         s\<lparr>points := (points s)(msg_sender e :=
               FHE_add (points s (msg_sender e))
                 (settlement (dailyPrice s asset day)
                    (predictions s (msg_sender e) asset day))),
           predictions := (predictions s)(msg_sender e :=
             (predictions s (msg_sender e))(asset :=
               (predictions s (msg_sender e) asset)(day :=
                  (predictions s (msg_sender e) asset day)\<lparr>confirmed := True\<rparr>)))\<rparr>))"
  by (simp add: transact_def confirmPrediction_def set_prediction_def Asset_BTC_def Let_def)

lemma transact_placePrediction:
  "transact e (PlacePrediction v asset ep ed proof) s =
     (if \<not> asset \<le> 1 then (Inl InvalidAsset, s)
      else if v = 0 then (Inl NoStake, s)
      else if \<not> v \<le> max_uint128 then (Inl StakeTooLarge, s)
      else if exists (predictions s (msg_sender e) asset (currentDay e + 1))
        then (Inl PredictionExists, s)
      else if ep \<notin> set (attested64 proof) \<or> ed \<notin> set (attested8 proof)
        then (Inl InvalidProof, s)
      else (Inr (placed_effects e v asset (Some ep) (Some ed) s),
            placed e v asset (Some ep) (Some ed) s))"
  by (auto simp add: transact_def placePrediction_def set_prediction_def initPoints_def
      placed_def placed_effects_def Asset_BTC_def Let_def currentDay_no_overflow
      FHE_fromExternal64_def FHE_fromExternal8_def FHE_asEuint128_def word_gt_0 fun_upd_idem
      split: prod.splits option.splits sum.splits intro!: state.equality)

lemmas transact_simps =
  transact_recordDailyPrice transact_placePrediction transact_confirmPrediction

subsection \<open>What no transaction changes\<close>

lemma transact_owner: "owner (snd (transact e c s)) = owner s"
  by (cases c) (simp_all add: transact_simps placed_def)

lemma transact_price_kept:
  "priceRecorded s a d \<Longrightarrow>
   priceRecorded (snd (transact e c s)) a d \<and>
   dailyPrice (snd (transact e c s)) a d = dailyPrice s a d"
  by (cases c) (auto simp add: transact_simps placed_def)

lemma transact_prediction_kept:
  "exists (predictions s u a d) \<Longrightarrow>
   exists (predictions (snd (transact e c s)) u a d) \<and>
   price (predictions (snd (transact e c s)) u a d) = price (predictions s u a d) \<and>
   direction (predictions (snd (transact e c s)) u a d) = direction (predictions s u a d) \<and>
   stake (predictions (snd (transact e c s)) u a d) = stake (predictions s u a d) \<and>
   (confirmed (predictions s u a d) \<longrightarrow>
      confirmed (predictions (snd (transact e c s)) u a d))"
  by (cases c) (auto simp add: transact_simps placed_def)

lemma run_append: "run s (cs @ cs') = run (run s cs) cs'"
  by (induction cs arbitrary: s) auto

lemma run_owner: "owner (run s cs) = owner s"
  by (induction cs arbitrary: s) (auto simp add: transact_owner)

lemma run_price_kept:
  "priceRecorded s a d \<Longrightarrow>
   priceRecorded (run s cs) a d \<and> dailyPrice (run s cs) a d = dailyPrice s a d"
proof (induction cs arbitrary: s)
  case Nil
  then show ?case by simp
next
  case (Cons x cs)
  obtain e c where x: "x = (e, c)" by (cases x)
  from Cons.prems have k: "priceRecorded (snd (transact e c s)) a d"
    and v: "dailyPrice (snd (transact e c s)) a d = dailyPrice s a d"
    using transact_price_kept [of s a d e c] by simp_all
  from Cons.IH [OF k] v x show ?case by simp
qed

lemma run_prediction_kept:
  "exists (predictions s u a d) \<Longrightarrow>
   exists (predictions (run s cs) u a d) \<and>
   price (predictions (run s cs) u a d) = price (predictions s u a d) \<and>
   direction (predictions (run s cs) u a d) = direction (predictions s u a d) \<and>
   stake (predictions (run s cs) u a d) = stake (predictions s u a d) \<and>
   (confirmed (predictions s u a d) \<longrightarrow> confirmed (predictions (run s cs) u a d))"
proof (induction cs arbitrary: s)
  case Nil
  then show ?case by simp
next
  case (Cons x cs)
  obtain e c where x: "x = (e, c)" by (cases x)
  note k = transact_prediction_kept [OF Cons.prems, of e c]
  from k have "exists (predictions (snd (transact e c s)) u a d)" by simp
  from Cons.IH [OF this] k x show ?case by simp
qed

lemma reachable_run: "reachable s \<Longrightarrow> reachable (run s cs)"
proof (induction cs arbitrary: s)
  case Nil
  then show ?case by simp
next
  case (Cons x cs)
  obtain e c where x: "x = (e, c)" by (cases x)
  from Cons.prems have "reachable (snd (transact e c s))"
    by (rule reachable.called)
  from Cons.IH [OF this] x show ?case by simp
qed


subsection \<open>Invariants of the deployed contract\<close>

lemma reachable_price_bound: "reachable s \<Longrightarrow> dailyPrice s a d \<le> max_uint64"
proof (induction rule: reachable.induct)
  case (deployed sender)
  show ?case by (simp add: constructor_def)
next
  case (called s e c)
  then show ?case
    by (cases c) (auto simp add: transact_simps placed_def)
qed

lemma reachable_stake_bound:
  "reachable s \<Longrightarrow> exists (predictions s u a d) \<Longrightarrow>
   0 < stake (predictions s u a d) \<and> stake (predictions s u a d) \<le> max_uint128"
proof (induction arbitrary: u a d rule: reachable.induct)
  case (deployed sender)
  then show ?case by (simp add: constructor_def zero_Prediction_def)
next
  case (called s e c)
  then show ?case
    by (cases c) (auto simp add: transact_simps placed_def word_gt_0 split: if_splits)
qed

subsection \<open>Settlement\<close>

lemma decrypt_Some: "decrypt (Some v) = v"
  by (simp add: decrypt_def)

lemma decrypt_FHE_add: "decrypt (FHE_add a b) = decrypt a + decrypt b"
  by (simp add: FHE_add_def decrypt_def)

lemma settlement_plain:
  assumes "p \<le> max_uint64" and "stake P \<le> max_uint128"
  shows "unat (decrypt (settlement p P)) =
         expected_reward (unat (decrypt (direction P))) (unat (decrypt (price P)))
           (unat p) (unat (stake P))"
proof -
  have p: "unat (ucast p :: u64) = unat p"
    using assms(1)
    by (simp add: max_uint64_def unsigned_ucast_eq take_bit_nat_eq_self word_le_nat_alt)
  have st: "unat (ucast (stake P) :: u128) = unat (stake P)"
    using assms(2)
    by (simp add: max_uint128_def unsigned_ucast_eq take_bit_nat_eq_self word_le_nat_alt)
  have one: "(decrypt (direction P) = 1) = (unat (decrypt (direction P)) = 1)"
    by (metis unat_1 word_unat_eq_iff)
  have two: "(decrypt (direction P) = 2) = (unat (decrypt (direction P)) = 2)"
    by (simp add: word_unat_eq_iff)
  show ?thesis
    unfolding settlement_def Let_def FHE_select_def FHE_or_def FHE_and_def FHE_eq_def
      FHE_gt_def FHE_lt_def FHE_asEuint64_def FHE_asEuint8_def FHE_asEuint128_def
      expected_reward_def
    by (simp add: decrypt_Some one two word_less_nat_alt p st)
qed

lemma demo_open_reachable: "reachable demo_open"
  unfolding demo_open_def demo_deployed_def
  by (rule reachable_run) (rule reachable.deployed)

text \<open>The three settlements the spec lists: "greater" with 1900 predicted or "less" with
  2100 predicted earn the stake at the recorded price 2000; "greater" with 2100 predicted
  earns nothing.\<close>

lemma settlement_examples:
  "st \<le> max_uint128 \<Longrightarrow>
   unat (decrypt (settlement 2000 \<lparr>price = Some 1900, direction = Some 1, stake = st,
      confirmed = False, exists = True\<rparr>)) = unat st \<and>
   unat (decrypt (settlement 2000 \<lparr>price = Some 2100, direction = Some 1, stake = st,
      confirmed = False, exists = True\<rparr>)) = 0 \<and>
   unat (decrypt (settlement 2000 \<lparr>price = Some 2100, direction = Some 2, stake = st,
      confirmed = False, exists = True\<rparr>)) = unat st"
proof -
  have "(2000 :: u256) \<le> max_uint64"
    by (simp add: max_uint64_def)
  then show "st \<le> max_uint128 \<Longrightarrow> ?thesis"
    by (simp add: settlement_plain expected_reward_def decrypt_Some)
qed

text \<open>
  Claim C1. With the plaintext stand-in for the engine, a successful \<open>confirmPrediction\<close>
  on a deployed contract adds to the caller's points (modulo \<open>2 ^ 128\<close>, the width of the
  accumulator) exactly the expected reward: the escrowed stake when the direction is 1 and
  the recorded price is greater than the predicted price, or the direction is 2 and the
  recorded price is less; and 0 in every other case, which includes a direction outside
  1 and 2 and a recorded price equal to the predicted one.
\<close>

theorem confirm_adds_expected_reward:
  assumes "reachable s"
    and "succeeds e (ConfirmPrediction asset day) s"
  shows "unat (decrypt (points (after e (ConfirmPrediction asset day) s) (msg_sender e))) =
         (unat (decrypt (points s (msg_sender e))) +
          expected_reward
            (unat (decrypt (direction (predictions s (msg_sender e) asset day))))
            (unat (decrypt (price (predictions s (msg_sender e) asset day))))
            (unat (dailyPrice s asset day))
            (unat (stake (predictions s (msg_sender e) asset day)))) mod 2 ^ 128"
proof -
  let ?P = "predictions s (msg_sender e) asset day"
  from assms(2) have ex: "exists ?P"
    and s': "points (after e (ConfirmPrediction asset day) s) (msg_sender e) =
             FHE_add (points s (msg_sender e)) (settlement (dailyPrice s asset day) ?P)"
    by (simp_all add: succeeds_def after_def transact_confirmPrediction split: if_splits)
  have "unat (decrypt (settlement (dailyPrice s asset day) ?P)) =
        expected_reward (unat (decrypt (direction ?P))) (unat (decrypt (price ?P)))
          (unat (dailyPrice s asset day)) (unat (stake ?P))"
    using reachable_price_bound [OF assms(1)] reachable_stake_bound [OF assms(1) ex]
    by (simp add: settlement_plain)
  then show ?thesis
    by (simp add: s' decrypt_FHE_add unat_word_ariths)
qed

theorem confirm_adds_expected_reward_witness:
  "reachable demo_open \<and> succeeds (at alice 86405) (ConfirmPrediction 0 1) demo_open \<and>
   decrypt (direction (predictions demo_open alice 0 1)) = 1 \<and>
   decrypt (price (predictions demo_open alice 0 1)) = 1900 \<and>
   dailyPrice demo_open 0 1 = 2000 \<and>
   stake (predictions demo_open alice 0 1) = 100000000000000000 \<and>
   decrypt (points demo_open alice) = 0 \<and>
   unat (decrypt (points (after (at alice 86405) (ConfirmPrediction 0 1) demo_open) alice)) =
     100000000000000000"
proof -
  have ok: "succeeds (at alice 86405) (ConfirmPrediction 0 1) demo_open"
    by (simp add: demo_defs contract_defs engine_defs)
  have vals: "decrypt (direction (predictions demo_open alice 0 1)) = 1"
    "decrypt (price (predictions demo_open alice 0 1)) = 1900"
    "dailyPrice demo_open 0 1 = 2000"
    "stake (predictions demo_open alice 0 1) = 100000000000000000"
    "decrypt (points demo_open alice) = 0"
    by (simp_all add: demo_defs contract_defs engine_defs)
  have snd: "msg_sender (at alice 86405) = alice"
    by (simp add: at_def)
  from confirm_adds_expected_reward [OF demo_open_reachable ok]
  show ?thesis
    using ok vals demo_open_reachable by (simp add: snd expected_reward_def)
qed

subsection \<open>The stake of a prediction\<close>

text \<open>
  Claim C9. In every state of a deployed contract, a prediction that exists has a stake
  with \<open>0 < stake \<le> 2 ^ 128 - 1\<close>; no later call changes it; so the conversion of the
  stake from 256 to 128 bits in the settlement loses nothing.
\<close>

theorem stake_narrowing_lossless:
  assumes "reachable s" and "exists (predictions s u a d)"
  shows "0 < stake (predictions s u a d) \<and>
         stake (predictions s u a d) \<le> 2 ^ 128 - 1 \<and>
         unat (ucast (stake (predictions s u a d)) :: u128) = unat (stake (predictions s u a d)) \<and>
         stake (predictions (run s cs) u a d) = stake (predictions s u a d)"
proof -
  note b = reachable_stake_bound [OF assms]
  from b have "unat (ucast (stake (predictions s u a d)) :: u128) =
               unat (stake (predictions s u a d))"
    by (simp add: max_uint128_def unsigned_ucast_eq take_bit_nat_eq_self word_le_nat_alt)
  with b run_prediction_kept [OF assms(2), of cs] show ?thesis
    by (simp add: max_uint128_def)
qed

theorem stake_narrowing_lossless_witness:
  "reachable demo_open \<and> exists (predictions demo_open alice 0 1) \<and>
   stake (predictions demo_open alice 0 1) = 100000000000000000 \<and>
   unat (ucast (stake (predictions demo_open alice 0 1)) :: u128) = 100000000000000000 \<and>
   stake (predictions (run demo_open [(at alice 86405, ConfirmPrediction 0 1)]) alice 0 1) =
     100000000000000000"
proof -
  have ex: "exists (predictions demo_open alice 0 1)"
    and st: "stake (predictions demo_open alice 0 1) = 100000000000000000"
    by (simp_all add: demo_defs contract_defs engine_defs)
  from stake_narrowing_lossless [OF demo_open_reachable ex,
      of "[(at alice 86405, ConfirmPrediction 0 1)]"]
  show ?thesis
    using demo_open_reachable ex st by simp
qed

subsection \<open>Confirmation\<close>

text \<open>
  Claim C10. A successful \<open>confirmPrediction\<close> changes the \<open>confirmed\<close> flag of the caller's
  prediction for the asset and day, from false to true, and the caller's points, and
  nothing else: the other fields of that prediction, every other prediction, the prices,
  the recorded flags, the latest days, the owner, the other users' points and the
  initialisation flags are as before.
\<close>

theorem confirm_changes_flag_and_points_only:
  assumes "succeeds e (ConfirmPrediction asset day) s"
  shows "(let s' = after e (ConfirmPrediction asset day) s;
              u = msg_sender e;
              P = predictions s u asset day;
              P' = predictions s' u asset day
          in \<not> confirmed P \<and> confirmed P' \<and>
             price P' = price P \<and> direction P' = direction P \<and> stake P' = stake P \<and>
             exists P' = exists P \<and>
             predictions s' =
               (predictions s)(u := (predictions s u)(asset :=
                  (predictions s u asset)(day := P'))) \<and>
             points s' = (points s)(u := points s' u) \<and>
             dailyPrice s' = dailyPrice s \<and> priceRecorded s' = priceRecorded s \<and>
             latestDay s' = latestDay s \<and> owner s' = owner s \<and>
             pointsInitialized s' = pointsInitialized s)"
  using assms
  by (simp add: succeeds_def after_def transact_confirmPrediction Let_def split: if_splits)

theorem confirm_changes_flag_and_points_only_witness:
  "succeeds (at alice 86405) (ConfirmPrediction 0 1) demo_open \<and>
   (let s' = after (at alice 86405) (ConfirmPrediction 0 1) demo_open
    in \<not> confirmed (predictions demo_open alice 0 1) \<and>
       confirmed (predictions s' alice 0 1) \<and>
       stake (predictions s' alice 0 1) = stake (predictions demo_open alice 0 1) \<and>
       dailyPrice s' = dailyPrice demo_open \<and> latestDay s' = latestDay demo_open)"
proof -
  have ok: "succeeds (at alice 86405) (ConfirmPrediction 0 1) demo_open"
    by (simp add: demo_defs contract_defs engine_defs)
  have snd: "msg_sender (at alice 86405) = alice"
    by (simp add: at_def)
  from confirm_changes_flag_and_points_only [OF ok] show ?thesis
    using ok by (simp add: snd Let_def)
qed

text \<open>
  Claim C5. When the preconditions of \<open>confirmPrediction\<close> hold for an existing, unconfirmed
  prediction, the first call succeeds and adds the reward to the caller's points; a second
  call by the same user for the same key, made when the day has passed (as it has at any
  time after the first call), fails \<open>AlreadyConfirmed\<close> and leaves the state, so the
  points, as the first call left them; it also fails \<open>AlreadyConfirmed\<close> after any calls
  in between.
\<close>

theorem confirm_twice:
  assumes "asset \<le> 1" and "day \<le> currentDay e" and "priceRecorded s asset day"
    and "exists (predictions s (msg_sender e) asset day)"
    and "\<not> confirmed (predictions s (msg_sender e) asset day)"
    and "msg_sender e' = msg_sender e" and "day \<le> currentDay e'"
  shows "(let u = msg_sender e;
              s1 = after e (ConfirmPrediction asset day) s;
              s2 = after e' (ConfirmPrediction asset day) s1
          in succeeds e (ConfirmPrediction asset day) s \<and>
             points s1 u =
               FHE_add (points s u) (settlement (dailyPrice s asset day)
                  (predictions s u asset day)) \<and>
             fst (transact e' (ConfirmPrediction asset day) s1) = Inl AlreadyConfirmed \<and>
             s2 = s1 \<and> points s2 u = points s1 u \<and>
             fst (transact e' (ConfirmPrediction asset day) (run s1 cs)) =
               Inl AlreadyConfirmed)"
proof -
  let ?c = "ConfirmPrediction asset day"
  let ?u = "msg_sender e"
  let ?s1 = "after e ?c s"
  from assms(1-5) have ok: "succeeds e ?c s"
    by (simp add: succeeds_def transact_confirmPrediction)
  from assms(1-5) have pts: "points ?s1 ?u =
      FHE_add (points s ?u) (settlement (dailyPrice s asset day) (predictions s ?u asset day))"
    by (simp add: after_def transact_confirmPrediction)
  from assms(1-5) have rec1: "priceRecorded ?s1 asset day"
    and ex1: "exists (predictions ?s1 ?u asset day)"
    and cf1: "confirmed (predictions ?s1 ?u asset day)"
    by (simp_all add: after_def transact_confirmPrediction)
  note day' = assms(7)
  have again: "fst (transact e' ?c t) = Inl AlreadyConfirmed \<and> after e' ?c t = t"
    if "priceRecorded t asset day" and "exists (predictions t ?u asset day)"
      and "confirmed (predictions t ?u asset day)" for t
    using that assms(1,6) day' by (simp add: after_def transact_confirmPrediction)
  have "priceRecorded (run ?s1 cs) asset day"
    using run_price_kept [OF rec1, of cs] by simp
  moreover have "exists (predictions (run ?s1 cs) ?u asset day)"
    and "confirmed (predictions (run ?s1 cs) ?u asset day)"
    using run_prediction_kept [OF ex1, of cs] cf1 by simp_all
  ultimately have later: "fst (transact e' ?c (run ?s1 cs)) = Inl AlreadyConfirmed"
    using again by simp
  from again [OF rec1 ex1 cf1] ok pts later show ?thesis
    by (simp add: Let_def)
qed

theorem confirm_twice_witness:
  "(0 :: u8) \<le> 1 \<and> 1 \<le> currentDay (at alice 86405) \<and> priceRecorded demo_open 0 1 \<and>
   exists (predictions demo_open alice 0 1) \<and>
   \<not> confirmed (predictions demo_open alice 0 1) \<and>
   1 \<le> currentDay (at alice 90000) \<and>
   succeeds (at alice 86405) (ConfirmPrediction 0 1) demo_open \<and>
   fst (transact (at alice 90000) (ConfirmPrediction 0 1)
          (after (at alice 86405) (ConfirmPrediction 0 1) demo_open)) = Inl AlreadyConfirmed \<and>
   points (after (at alice 90000) (ConfirmPrediction 0 1)
            (after (at alice 86405) (ConfirmPrediction 0 1) demo_open)) alice =
     Some 100000000000000000"
proof -
  have h: "(0 :: u8) \<le> 1" "1 \<le> currentDay (at alice 86405)" "priceRecorded demo_open 0 1"
    "exists (predictions demo_open (msg_sender (at alice 86405)) 0 1)"
    "\<not> confirmed (predictions demo_open (msg_sender (at alice 86405)) 0 1)"
    "msg_sender (at alice 90000) = msg_sender (at alice 86405)"
    "1 \<le> currentDay (at alice 90000)"
    by (simp_all add: demo_defs contract_defs engine_defs)
  have v: "FHE_add (points demo_open alice)
             (settlement (dailyPrice demo_open 0 1) (predictions demo_open alice 0 1)) =
           Some 100000000000000000"
    by (simp add: demo_defs contract_defs engine_defs)
  have snd: "msg_sender (at alice 86405) = alice"
    by (simp add: at_def)
  from confirm_twice [OF h, of "[]"] show ?thesis
    using h v by (simp add: snd Let_def)
qed

subsection \<open>Failed calls\<close>

text \<open>Every \<open>require\<close> of the contract fails before the first write to storage.\<close>

lemma body_require_before_write:
  "fst (body e c s) = Inl err \<Longrightarrow> err \<noteq> InvalidProof \<Longrightarrow> snd (body e c s) = s"
  by (cases c)
    (auto simp add: recordDailyPrice_def placePrediction_def confirmPrediction_def Let_def
      split: if_splits option.splits prod.splits)

text \<open>
  Claim C8. A call of \<open>recordDailyPrice\<close>, \<open>placePrediction\<close> or \<open>confirmPrediction\<close> that
  fails, with whichever error, leaves the whole storage as it was before the call.
  Every failed \<open>require\<close> moreover stops the body before anything is written; only a
  rejected input proof can come after a write, which the revert undoes.
\<close>

theorem failure_leaves_state:
  assumes "fst (transact e c s) = Inl err"
  shows "after e c s = s \<and> fst (body e c s) = Inl err \<and>
         (err \<noteq> InvalidProof \<longrightarrow> snd (body e c s) = s)"
proof -
  from assms have b: "fst (body e c s) = Inl err"
    by (auto simp add: transact_def split: prod.splits sum.splits)
  then have "after e c s = s"
    by (auto simp add: after_def transact_def split: prod.splits sum.splits)
  with b body_require_before_write [OF b] show ?thesis by simp
qed

theorem failure_leaves_state_witness:
  "fst (transact (at operator 86405) (RecordDailyPrice 0 2500) demo_open) = Inl AlreadyRecorded \<and>
   after (at operator 86405) (RecordDailyPrice 0 2500) demo_open = demo_open \<and>
   snd (body (at operator 86405) (RecordDailyPrice 0 2500) demo_open) = demo_open \<and>
   dailyPrice demo_open 0 1 = 2000"
proof -
  have f: "fst (transact (at operator 86405) (RecordDailyPrice 0 2500) demo_open) =
           Inl AlreadyRecorded"
    and p: "dailyPrice demo_open 0 1 = 2000"
    by (simp_all add: demo_defs contract_defs engine_defs)
  from failure_leaves_state [OF f] f p show ?thesis by simp
qed

subsection \<open>The price ledger\<close>

text \<open>
  Claim C3, as stated, fails: after a successful \<open>recordDailyPrice\<close>, a later call of the
  operator on the same day with the price \<open>2 ^ 64\<close> fails \<open>ValueOutOfRange\<close>, and a later call
  of another account fails \<open>Unauthorized\<close>, not \<open>AlreadyRecorded\<close>: the caller and the range
  of the price are checked before the recorded flag.
\<close>

theorem record_again_counterexample:
  "succeeds (at operator 5) (RecordDailyPrice 0 2000) demo_deployed \<and>
   currentDay (at operator 10) = currentDay (at operator 5) \<and>
   fst (transact (at operator 10) (RecordDailyPrice 0 18446744073709551616)
          (after (at operator 5) (RecordDailyPrice 0 2000) demo_deployed)) = Inl ValueOutOfRange \<and>
   currentDay (at alice 10) = currentDay (at operator 5) \<and>
   fst (transact (at alice 10) (RecordDailyPrice 0 2500)
          (after (at operator 5) (RecordDailyPrice 0 2000) demo_deployed)) = Inl Unauthorized"
  by (simp add: demo_defs contract_defs)

text \<open>
  Claim C3, amended. After a successful \<open>recordDailyPrice\<close> of price \<open>p\<close> for an asset on a
  day, and after any further calls, the stored price for that asset and day is still \<open>p\<close>
  and its flag is still set; every later \<open>recordDailyPrice\<close> for the same asset on the same
  day fails and changes nothing. It fails \<open>AlreadyRecorded\<close> when the caller is the operator
  and the price is at most \<open>2 ^ 64 - 1\<close>; otherwise it fails with the error of the earlier
  check, \<open>Unauthorized\<close> or \<open>ValueOutOfRange\<close>.
\<close>

theorem record_price_once:
  assumes "succeeds e (RecordDailyPrice asset p) s" and "currentDay e' = currentDay e"
  shows "(let day = currentDay e;
              s1 = after e (RecordDailyPrice asset p) s;
              s2 = run s1 cs
          in dailyPrice s1 asset day = p \<and> priceRecorded s1 asset day \<and>
             dailyPrice s2 asset day = p \<and> priceRecorded s2 asset day \<and>
             fst (transact e' (RecordDailyPrice asset p') s2) =
               Inl (if msg_sender e' \<noteq> owner s then Unauthorized
                    else if \<not> p' \<le> 2 ^ 64 - 1 then ValueOutOfRange
                    else AlreadyRecorded) \<and>
             after e' (RecordDailyPrice asset p') s2 = s2)"
proof -
  let ?s1 = "after e (RecordDailyPrice asset p) s"
  from assms(1) have a: "asset \<le> 1"
    and s1: "dailyPrice ?s1 asset (currentDay e) = p" "priceRecorded ?s1 asset (currentDay e)"
    by (simp_all add: succeeds_def after_def transact_recordDailyPrice split: if_splits)
  have own: "owner (run ?s1 cs) = owner s"
    by (simp add: run_owner after_def transact_owner)
  from run_price_kept [OF s1(2), of cs] s1(1)
  have s2: "dailyPrice (run ?s1 cs) asset (currentDay e) = p"
    "priceRecorded (run ?s1 cs) asset (currentDay e)"
    by simp_all
  from a s2(2) own assms(2)
  have "fst (transact e' (RecordDailyPrice asset p') (run ?s1 cs)) =
          Inl (if msg_sender e' \<noteq> owner s then Unauthorized
               else if \<not> p' \<le> 2 ^ 64 - 1 then ValueOutOfRange
               else AlreadyRecorded)"
    and "after e' (RecordDailyPrice asset p') (run ?s1 cs) = run ?s1 cs"
    by (simp_all add: after_def transact_recordDailyPrice max_uint64_def)
  with s1 s2 show ?thesis
    by (simp add: Let_def)
qed

theorem record_price_once_witness:
  "succeeds (at operator 5) (RecordDailyPrice 0 2000) demo_deployed \<and>
   currentDay (at operator 10) = currentDay (at operator 5) \<and>
   fst (transact (at operator 10) (RecordDailyPrice 0 2500)
          (run (after (at operator 5) (RecordDailyPrice 0 2000) demo_deployed)
             [(at alice 6, demo_place)])) = Inl AlreadyRecorded \<and>
   dailyPrice (run (after (at operator 5) (RecordDailyPrice 0 2000) demo_deployed)
                 [(at alice 6, demo_place)]) 0 0 = 2000"
proof -
  have h: "succeeds (at operator 5) (RecordDailyPrice 0 2000) demo_deployed"
    "currentDay (at operator 10) = currentDay (at operator 5)"
    and d: "currentDay (at operator 5) = 0"
    and o: "msg_sender (at operator 10) = owner demo_deployed"
    by (simp_all add: demo_defs contract_defs)
  from record_price_once [OF h, of "[(at alice 6, demo_place)]" 2500]
  show ?thesis
    using h by (simp add: Let_def d o)
qed

subsection \<open>The latest day\<close>

lemma run_Cons_after: "run s ((e, c) # cs) = run (after e c s) cs"
  by (simp add: after_def)

lemma latestDay_after:
  "latestDay (after e c s) a =
     (if succeeds e c s then last (latestDay s a # recorded_days a [(e, c)]) else latestDay s a)"
  by (cases c) (simp_all add: after_def succeeds_def transact_simps placed_def)

lemma recorded_days_append:
  "recorded_days a (xs @ ys) = recorded_days a xs @ recorded_days a ys"
  by (induction a xs rule: recorded_days.induct) simp_all

lemma last_Cons_append: "last (x # xs @ ys) = last (last (x # xs) # ys)"
  by (cases ys) simp_all

lemma latestDay_run:
  "latestDay (run s cs) a = last (latestDay s a # recorded_days a (successes s cs))"
proof (induction cs arbitrary: s)
  case Nil
  show ?case by simp
next
  case (Cons x cs)
  obtain e c where x: "x = (e, c)" by (cases x)
  have "latestDay (run s (x # cs)) a =
        last (latestDay (after e c s) a # recorded_days a (successes (after e c s) cs))"
    unfolding x run_Cons_after by (rule Cons.IH)
  also have "\<dots> = last (latestDay s a # recorded_days a (successes s (x # cs)))"
  proof (cases "succeeds e c s")
    case True
    then show ?thesis
      unfolding x successes.simps recorded_days_append latestDay_after
      by (simp only: if_True last_Cons_append [symmetric])
  next
    case False
    then show ?thesis
      by (simp add: x latestDay_after)
  qed
  finally show ?case .
qed

lemma latestDay_step_mono:
  assumes "latestDay s a \<le> currentDay e"
  shows "latestDay s a \<le> latestDay (after e c s) a \<and> latestDay (after e c s) a \<le> currentDay e"
  using assms by (cases c) (auto simp add: after_def transact_simps placed_def)

lemma latestDay_run_mono:
  assumes "sorted (map (\<lambda>x. currentDay (fst x)) cs)"
    and "\<forall>x \<in> set cs. latestDay s a \<le> currentDay (fst x)"
  shows "latestDay s a \<le> latestDay (run s cs) a"
  using assms
proof (induction cs arbitrary: s)
  case Nil
  show ?case by simp
next
  case (Cons x cs)
  obtain e c where x: "x = (e, c)" by (cases x)
  from Cons.prems(2) have now: "latestDay s a \<le> currentDay e"
    by (simp add: x)
  note st = latestDay_step_mono [OF now, of c]
  have "\<forall>y \<in> set cs. latestDay (after e c s) a \<le> currentDay (fst y)"
  proof
    fix y assume y: "y \<in> set cs"
    with Cons.prems(1) have "currentDay e \<le> currentDay (fst y)"
      by (simp add: x)
    with st show "latestDay (after e c s) a \<le> currentDay (fst y)"
      by (blast intro: order_trans)
  qed
  moreover from Cons.prems(1) have "sorted (map (\<lambda>x. currentDay (fst x)) cs)"
    by simp
  ultimately have "latestDay (after e c s) a \<le> latestDay (run (after e c s) cs) a"
    by (rule Cons.IH [rotated])
  with st have "latestDay s a \<le> latestDay (run (after e c s) cs) a"
    by (blast intro: order_trans)
  then show ?case
    by (simp add: x after_def)
qed

lemma latestDay_run_bound:
  assumes "sorted (map (\<lambda>x. currentDay (fst x)) (cs @ cs'))"
    and "\<forall>x \<in> set (cs @ cs'). latestDay s a \<le> currentDay (fst x)"
  shows "\<forall>x \<in> set cs'. latestDay (run s cs) a \<le> currentDay (fst x)"
  using assms
proof (induction cs arbitrary: s)
  case Nil
  then show ?case by simp
next
  case (Cons x cs)
  obtain e c where x: "x = (e, c)" by (cases x)
  from Cons.prems(2) have now: "latestDay s a \<le> currentDay e"
    by (simp add: x)
  note st = latestDay_step_mono [OF now, of c]
  have "\<forall>y \<in> set (cs @ cs'). latestDay (after e c s) a \<le> currentDay (fst y)"
  proof
    fix y assume y: "y \<in> set (cs @ cs')"
    with Cons.prems(1) have "currentDay e \<le> currentDay (fst y)"
      by (auto simp add: x)
    with st show "latestDay (after e c s) a \<le> currentDay (fst y)"
      by (blast intro: order_trans)
  qed
  moreover from Cons.prems(1) have "sorted (map (\<lambda>x. currentDay (fst x)) (cs @ cs'))"
    by simp
  ultimately have "\<forall>x \<in> set cs'. latestDay (run (after e c s) cs) a \<le> currentDay (fst x)"
    by (rule Cons.IH [rotated])
  then show ?case
    by (simp add: x after_def)
qed

text \<open>
  Claim C7. After any sequence of calls, the latest day of an asset is the day of the last
  successful \<open>recordDailyPrice\<close> for that asset in the sequence (the value before the
  sequence when there is none). When the current day never goes back over the calls made
  since deployment, the latest day of an asset never decreases along the sequence.
\<close>

theorem latest_day_is_last_recorded:
  "latestDay (run s cs) a = last (latestDay s a # recorded_days a (successes s cs)) \<and>
   (sorted (map (\<lambda>x. currentDay (fst x)) cs) \<longrightarrow>
    (\<forall>cs1 cs2. cs = cs1 @ cs2 \<longrightarrow>
       latestDay (run (snd (constructor sender)) cs1) a
         \<le> latestDay (run (snd (constructor sender)) cs) a))"
proof (intro conjI impI allI)
  show "latestDay (run s cs) a = last (latestDay s a # recorded_days a (successes s cs))"
    by (rule latestDay_run)
next
  fix cs1 cs2
  let ?s0 = "snd (constructor sender)"
  assume srt: "sorted (map (\<lambda>x. currentDay (fst x)) cs)" and cs: "cs = cs1 @ cs2"
  have zero: "\<forall>x \<in> set (cs1 @ cs2). latestDay ?s0 a \<le> currentDay (fst x)"
    by (simp add: constructor_def)
  from srt have s2: "sorted (map (\<lambda>x. currentDay (fst x)) cs2)"
    by (simp add: cs sorted_append)
  have "\<forall>x \<in> set cs2. latestDay (run ?s0 cs1) a \<le> currentDay (fst x)"
    using srt zero unfolding cs by (rule latestDay_run_bound)
  with s2 have "latestDay (run ?s0 cs1) a \<le> latestDay (run (run ?s0 cs1) cs2) a"
    by (rule latestDay_run_mono)
  then show "latestDay (run ?s0 cs1) a \<le> latestDay (run ?s0 cs) a"
    by (simp add: cs run_append)
qed


theorem latest_day_is_last_recorded_witness:
  "sorted (map (\<lambda>x. currentDay (fst x)) demo_records) \<and>
   recorded_days 0 (successes demo_deployed demo_records) = [0, 1, 3] \<and>
   latestDay (run demo_deployed demo_records) 0 = 3 \<and>
   latestDay (run demo_deployed (take 2 demo_records)) 0
     \<le> latestDay (run demo_deployed demo_records) 0"
proof -
  note t = latest_day_is_last_recorded [of demo_deployed demo_records 0 operator]
  have srt: "sorted (map (\<lambda>x. currentDay (fst x)) demo_records)"
    by (simp add: demo_records_def at_def currentDay_def)
  have days: "recorded_days 0 (successes demo_deployed demo_records) = [0, 1, 3]"
    by (simp add: demo_records_def demo_defs contract_defs)
  from t have "latestDay (run demo_deployed demo_records) 0 =
      last (latestDay demo_deployed 0 # recorded_days 0 (successes demo_deployed demo_records))"
    by (rule conjunct1)
  then have last: "latestDay (run demo_deployed demo_records) 0 = 3"
    by (simp add: days)
  from t srt have "\<forall>cs1 cs2. demo_records = cs1 @ cs2 \<longrightarrow>
      latestDay (run (snd (constructor operator)) cs1) 0
        \<le> latestDay (run (snd (constructor operator)) demo_records) 0"
    by blast
  moreover have "demo_records = take 2 demo_records @ drop 2 demo_records"
    by simp
  ultimately have "latestDay (run (snd (constructor operator)) (take 2 demo_records)) 0
      \<le> latestDay (run (snd (constructor operator)) demo_records) 0"
    by blast
  with srt days last show ?thesis
    by (simp add: demo_deployed_def)
qed

subsection \<open>Placing a prediction\<close>

text \<open>
  Claim C4, as stated, fails: a second \<open>placePrediction\<close> of the same user for the same asset
  on the same day fails \<open>NoStake\<close> when it sends no value and \<open>StakeTooLarge\<close> when it sends
  \<open>2 ^ 128\<close>, not \<open>PredictionExists\<close>: the stake is checked before the key.
\<close>

theorem place_again_counterexample:
  "succeeds (at alice 5) demo_place demo_deployed \<and>
   currentDay (at alice 10) = currentDay (at alice 5) \<and>
   fst (transact (at alice 10)
          (PlacePrediction 0 0 1900 1 \<lparr>attested64 = [1900], attested8 = [1]\<rparr>)
          (after (at alice 5) demo_place demo_deployed)) = Inl NoStake \<and>
   fst (transact (at alice 10)
          (PlacePrediction 340282366920938463463374607431768211456 0 1900 1
             \<lparr>attested64 = [1900], attested8 = [1]\<rparr>)
          (after (at alice 5) demo_place demo_deployed)) = Inl StakeTooLarge"
  by (simp add: demo_defs contract_defs engine_defs)

text \<open>
  Claim C4, amended. A successful \<open>placePrediction\<close> stores the prediction under the day
  after the current day of the call, which is later than the current day, under a key that
  held no prediction, and changes no other prediction. From then on, after any further
  calls, every \<open>placePrediction\<close> of the same user for the same asset on the same calendar
  day fails and changes nothing. It fails \<open>PredictionExists\<close> when its stake passes the
  stake checks; otherwise it fails with the error of the stake check, \<open>NoStake\<close> or
  \<open>StakeTooLarge\<close>.
\<close>

theorem place_prediction_once:
  assumes "succeeds e (PlacePrediction v asset ep ed proof) s"
    and "msg_sender e' = msg_sender e" and "currentDay e' = currentDay e"
  shows "(let u = msg_sender e;
              day = currentDay e + 1;
              s1 = after e (PlacePrediction v asset ep ed proof) s;
              s2 = run s1 cs
          in currentDay e < day \<and>
             \<not> exists (predictions s u asset day) \<and>
             predictions s1 u asset day =
               \<lparr>price = Some ep, direction = Some ed, stake = v, confirmed = False,
                exists = True\<rparr> \<and>
             predictions s1 =
               (predictions s)(u := (predictions s u)(asset :=
                  (predictions s u asset)(day := predictions s1 u asset day))) \<and>
             exists (predictions s2 u asset day) \<and>
             fst (transact e' (PlacePrediction v' asset ep' ed' proof') s2) =
               Inl (if v' = 0 then NoStake
                    else if \<not> v' \<le> 2 ^ 128 - 1 then StakeTooLarge
                    else PredictionExists) \<and>
             after e' (PlacePrediction v' asset ep' ed' proof') s2 = s2)"
proof -
  let ?u = "msg_sender e"
  let ?day = "currentDay e + 1"
  let ?s1 = "after e (PlacePrediction v asset ep ed proof) s"
  from assms(1) have a: "asset \<le> 1"
    and new: "\<not> exists (predictions s ?u asset ?day)"
    and s1: "?s1 = placed e v asset (Some ep) (Some ed) s"
    by (simp_all add: succeeds_def after_def transact_placePrediction split: if_splits)
  have p1: "predictions ?s1 ?u asset ?day =
      \<lparr>price = Some ep, direction = Some ed, stake = v, confirmed = False, exists = True\<rparr>"
    by (simp add: s1 placed_def)
  have fr: "predictions ?s1 =
      (predictions s)(?u := (predictions s ?u)(asset :=
         (predictions s ?u asset)(?day := predictions ?s1 ?u asset ?day)))"
    by (simp add: s1 placed_def)
  from p1 have "exists (predictions ?s1 ?u asset ?day)"
    by simp
  from run_prediction_kept [OF this, of cs]
  have ex2: "exists (predictions (run ?s1 cs) ?u asset ?day)"
    by simp
  from a ex2 assms(2,3)
  have "fst (transact e' (PlacePrediction v' asset ep' ed' proof') (run ?s1 cs)) =
          Inl (if v' = 0 then NoStake
               else if \<not> v' \<le> 2 ^ 128 - 1 then StakeTooLarge
               else PredictionExists)"
    and "after e' (PlacePrediction v' asset ep' ed' proof') (run ?s1 cs) = run ?s1 cs"
    by (simp_all add: after_def transact_placePrediction max_uint128_def)
  with currentDay_less_tomorrow [of e] new p1 fr ex2 show ?thesis
    by (simp only: Let_def) simp
qed

theorem place_prediction_once_witness:
  "succeeds (at alice 5) demo_place demo_deployed \<and>
   currentDay (at alice 10) = currentDay (at alice 5) \<and>
   currentDay (at alice 5) + 1 = 1 \<and>
   stake (predictions (after (at alice 5) demo_place demo_deployed) alice 0 1) =
     100000000000000000 \<and>
   fst (transact (at alice 10)
          (PlacePrediction 7 0 1800 2 \<lparr>attested64 = [1800], attested8 = [2]\<rparr>)
          (after (at alice 5) demo_place demo_deployed)) = Inl PredictionExists"
proof -
  have h: "succeeds (at alice 5)
      (PlacePrediction 100000000000000000 0 1900 1 \<lparr>attested64 = [1900], attested8 = [1]\<rparr>)
      demo_deployed"
    "msg_sender (at alice 10) = msg_sender (at alice 5)"
    "currentDay (at alice 10) = currentDay (at alice 5)"
    and d: "currentDay (at alice 5) + 1 = 1"
    and u: "msg_sender (at alice 5) = alice"
    by (simp_all add: demo_defs contract_defs engine_defs)
  from place_prediction_once [OF h, of "[]" 7 1800 2 "\<lparr>attested64 = [1800], attested8 = [2]\<rparr>"]
  show ?thesis
    using h by (simp add: Let_def d u demo_place_def max_uint128_def)
qed

subsection \<open>Who confirms, and when\<close>

text \<open>
  Claim C2, as stated, fails: the prediction to confirm is looked up under the caller. When
  another principal calls \<open>confirmPrediction\<close> for a user's open prediction whose day has
  passed and whose price is recorded, the call fails \<open>PredictionMissing\<close>, and the user's
  prediction stays unconfirmed and the user's points stay as they were.
\<close>

theorem confirm_by_other_counterexample:
  "exists (predictions demo_open alice 0 1) \<and> priceRecorded demo_open 0 1 \<and>
   1 \<le> currentDay (at bob 86405) \<and>
   fst (transact (at bob 86405) (ConfirmPrediction 0 1) demo_open) = Inl PredictionMissing \<and>
   \<not> confirmed (predictions (after (at bob 86405) (ConfirmPrediction 0 1) demo_open) alice 0 1) \<and>
   points (after (at bob 86405) (ConfirmPrediction 0 1) demo_open) alice = Some 0"
  by (simp add: demo_defs contract_defs engine_defs)

text \<open>
  Claim C2, amended. For a user's existing, unconfirmed prediction whose day has passed and
  whose price is recorded, \<open>confirmPrediction\<close> called by that user succeeds, merges the
  reward into the user's points and marks the prediction confirmed. Called by any other
  principal it leaves that prediction unconfirmed and the user's points unchanged; it then
  succeeds exactly when the caller has an unconfirmed prediction of their own under the same
  asset and day, which is the one it settles, and fails \<open>PredictionMissing\<close> when the caller
  has no prediction there.
\<close>

theorem confirm_own_prediction_only:
  assumes "asset \<le> 1" and "day \<le> currentDay e" and "priceRecorded s asset day"
    and "exists (predictions s u asset day)" and "\<not> confirmed (predictions s u asset day)"
  shows "(let c = ConfirmPrediction asset day; s' = after e c s
          in if msg_sender e = u
             then succeeds e c s \<and> confirmed (predictions s' u asset day) \<and>
                  points s' u =
                    FHE_add (points s u)
                      (settlement (dailyPrice s asset day) (predictions s u asset day))
             else \<not> confirmed (predictions s' u asset day) \<and> points s' u = points s u \<and>
                  succeeds e c s =
                    (exists (predictions s (msg_sender e) asset day) \<and>
                     \<not> confirmed (predictions s (msg_sender e) asset day)) \<and>
                  (exists (predictions s (msg_sender e) asset day) \<or>
                   fst (transact e c s) = Inl PredictionMissing))"
  using assms
  by (auto simp add: Let_def succeeds_def after_def transact_confirmPrediction)

theorem confirm_own_prediction_only_witness:
  "(0 :: u8) \<le> 1 \<and> 1 \<le> currentDay (at bob 86405) \<and> priceRecorded demo_open 0 1 \<and>
   exists (predictions demo_open alice 0 1) \<and> \<not> confirmed (predictions demo_open alice 0 1) \<and>
   \<not> succeeds (at bob 86405) (ConfirmPrediction 0 1) demo_open \<and>
   fst (transact (at bob 86405) (ConfirmPrediction 0 1) demo_open) = Inl PredictionMissing \<and>
   \<not> confirmed (predictions (after (at bob 86405) (ConfirmPrediction 0 1) demo_open) alice 0 1) \<and>
   succeeds (at alice 86405) (ConfirmPrediction 0 1) demo_open \<and>
   confirmed (predictions (after (at alice 86405) (ConfirmPrediction 0 1) demo_open) alice 0 1)"
proof -
  have h: "(0 :: u8) \<le> 1" "1 \<le> currentDay (at bob 86405)" "priceRecorded demo_open 0 1"
    "exists (predictions demo_open alice 0 1)" "\<not> confirmed (predictions demo_open alice 0 1)"
    and h': "1 \<le> currentDay (at alice 86405)"
    and nb: "\<not> exists (predictions demo_open bob 0 1)"
    by (simp_all add: demo_defs contract_defs engine_defs)
  have snd: "msg_sender (at bob 86405) = bob" "msg_sender (at alice 86405) = alice" "bob \<noteq> alice"
    by (simp_all add: at_def alice_def bob_def)
  from confirm_own_prediction_only [OF h]
    confirm_own_prediction_only [OF h(1) h' h(3-5)]
  show ?thesis
    using h nb by (simp add: snd Let_def)
qed

text \<open>
  Claim C6, as stated, fails: with a valid asset, a day after the current day and no price
  recorded for it, \<open>confirmPrediction\<close> fails \<open>TooEarly\<close>, not \<open>PriceNotRecorded\<close>, since
  the day is checked before the price.
\<close>

theorem confirm_unrecorded_counterexample:
  "(0 :: u8) \<le> 1 \<and> currentDay (at alice 5) < 5 \<and> \<not> priceRecorded demo_deployed 0 5 \<and>
   fst (transact (at alice 5) (ConfirmPrediction 0 5) demo_deployed) = Inl TooEarly"
  by (simp add: demo_defs contract_defs)

text \<open>
  Claim C6, amended. With a valid asset, \<open>confirmPrediction\<close> fails \<open>TooEarly\<close> whenever the
  day is after the current day, and fails \<open>PriceNotRecorded\<close> whenever the day is not after
  the current day and no price is recorded for the asset and day; in both cases whatever
  the predictions in storage are.
\<close>

theorem confirm_checks_before_prediction:
  assumes "asset \<le> 1"
  shows "(currentDay e < day \<longrightarrow>
            fst (transact e (ConfirmPrediction asset day) (s\<lparr>predictions := ps\<rparr>)) =
              Inl TooEarly) \<and>
         (day \<le> currentDay e \<and> \<not> priceRecorded s asset day \<longrightarrow>
            fst (transact e (ConfirmPrediction asset day) (s\<lparr>predictions := ps\<rparr>)) =
              Inl PriceNotRecorded)"
  using assms by (simp add: transact_confirmPrediction not_le)

theorem confirm_checks_before_prediction_witness:
  "(0 :: u8) \<le> 1 \<and> currentDay (at alice 5) < 1 \<and>
   fst (transact (at alice 5) (ConfirmPrediction 0 1) demo_open) = Inl TooEarly \<and>
   2 \<le> currentDay (at alice 172805) \<and> \<not> priceRecorded demo_open 0 2 \<and>
   fst (transact (at alice 172805) (ConfirmPrediction 0 2) demo_open) = Inl PriceNotRecorded"
proof -
  have h: "(0 :: u8) \<le> 1"
    and e: "currentDay (at alice 5) < 1"
    and l: "2 \<le> currentDay (at alice 172805)" "\<not> priceRecorded demo_open 0 2"
    by (simp_all add: demo_defs contract_defs engine_defs)
  have same: "demo_open\<lparr>predictions := predictions demo_open\<rparr> = demo_open"
    by simp
  from confirm_checks_before_prediction [OF h, of "at alice 5" 1 "predictions demo_open" demo_open]
    confirm_checks_before_prediction [OF h, of "at alice 172805" 2 "predictions demo_open"
      demo_open]
  show ?thesis
    using h e l by (simp add: same)
qed

end
